theory Spec2Isabelle
  imports Complex_Main
begin

section \<open>Scene normalisation of the cello scripts (falling.py, pulling.py, follow.py)\<close>

text \<open>
  The three scripts share one block (falling.py lines 147-184, repeated in pulling.py
  and follow.py) that reads the world-space bounding box of the ECS ("matrix") objects,
  rescales every imported object by one factor and shifts every imported object by one
  offset. This theory embeds that block.

  Numbers. Python floats are modelled as the reals extended by the three IEEE special
  values the block can meet: the sentinels \<open>float('inf')\<close> and \<open>float('-inf')\<close> that
  initialise the running minima and maxima, and NaN. Arithmetic on finite values is
  exact: rounding, overflow, underflow and the sign of zero are not modelled.
\<close>

subsection \<open>Floats\<close>

datatype pyfloat = Fin real | PInf | NInf | NaN

datatype error = ZeroDivisionError

fun is_fin :: "pyfloat \<Rightarrow> bool" where
  "is_fin (Fin r) = True"
| "is_fin f = False"

fun the_real :: "pyfloat \<Rightarrow> real" where
  "the_real (Fin r) = r"
| "the_real f = 0"

fun fneg :: "pyfloat \<Rightarrow> pyfloat" where
  "fneg (Fin a) = Fin (- a)"
| "fneg PInf = NInf"
| "fneg NInf = PInf"
| "fneg NaN = NaN"

fun fadd :: "pyfloat \<Rightarrow> pyfloat \<Rightarrow> pyfloat" where
  "fadd (Fin a) (Fin b) = Fin (a + b)"
| "fadd NaN b = NaN"
| "fadd a NaN = NaN"
| "fadd PInf NInf = NaN"
| "fadd NInf PInf = NaN"
| "fadd PInf b = PInf"
| "fadd a PInf = PInf"
| "fadd NInf b = NInf"
| "fadd a NInf = NInf"

definition fsub :: "pyfloat \<Rightarrow> pyfloat \<Rightarrow> pyfloat" where
  "fsub a b = fadd a (fneg b)"

text \<open>The sign of a float: \<open>1\<close>, \<open>-1\<close>, or \<open>0\<close> for zero; NaN has none.\<close>

fun fsgn :: "pyfloat \<Rightarrow> real option" where
  "fsgn (Fin a) = Some (sgn a)"
| "fsgn PInf = Some 1"
| "fsgn NInf = Some (- 1)"
| "fsgn NaN = None"

definition inf_of_sign :: "real \<Rightarrow> pyfloat" where
  "inf_of_sign s = (if s = 0 then NaN else if 0 < s then PInf else NInf)"

fun fmul :: "pyfloat \<Rightarrow> pyfloat \<Rightarrow> pyfloat" where
  "fmul (Fin a) (Fin b) = Fin (a * b)"
| "fmul a b =
     (case (fsgn a, fsgn b) of
        (Some s, Some t) \<Rightarrow> inf_of_sign (s * t)
      | _ \<Rightarrow> NaN)"

text \<open>
  Python's \<open>/\<close> on floats raises ZeroDivisionError for a zero divisor, whatever the
  dividend; a finite dividend over an infinity is zero; an infinity over an infinity
  is NaN.
\<close>

fun fdiv :: "pyfloat \<Rightarrow> pyfloat \<Rightarrow> error + pyfloat" where
  "fdiv a (Fin b) =
     (if b = 0 then Inl ZeroDivisionError
      else case a of
        Fin x \<Rightarrow> Inr (Fin (x / b))
      | PInf \<Rightarrow> Inr (if 0 < b then PInf else NInf)
      | NInf \<Rightarrow> Inr (if 0 < b then NInf else PInf)
      | NaN \<Rightarrow> Inr NaN)"
| "fdiv (Fin x) b = Inr (case b of NaN \<Rightarrow> NaN | _ \<Rightarrow> Fin 0)"
| "fdiv a b = Inr NaN"

text \<open>Comparisons: every comparison with NaN is false.\<close>

fun flt :: "pyfloat \<Rightarrow> pyfloat \<Rightarrow> bool" where
  "flt (Fin a) (Fin b) = (a < b)"
| "flt NaN b = False"
| "flt a NaN = False"
| "flt a NInf = False"
| "flt PInf b = False"
| "flt NInf b = True"
| "flt a PInf = True"

definition fgt :: "pyfloat \<Rightarrow> pyfloat \<Rightarrow> bool" where
  "fgt a b = flt b a"

fun fle :: "pyfloat \<Rightarrow> pyfloat \<Rightarrow> bool" where
  "fle (Fin a) (Fin b) = (a \<le> b)"
| "fle NaN b = False"
| "fle a NaN = False"
| "fle NInf b = True"
| "fle a PInf = True"
| "fle a b = False"

text \<open>
  Python's builtin \<open>min(a, b, ...)\<close> keeps its first argument and replaces it by a later
  one only when that one compares strictly smaller; \<open>max\<close> likewise with strictly
  greater.
\<close>

definition py_min :: "pyfloat \<Rightarrow> pyfloat \<Rightarrow> pyfloat" where
  "py_min a b = (if flt b a then b else a)"

definition py_max :: "pyfloat \<Rightarrow> pyfloat \<Rightarrow> pyfloat" where
  "py_max a b = (if fgt b a then b else a)"

definition py_min3 :: "pyfloat \<Rightarrow> pyfloat \<Rightarrow> pyfloat \<Rightarrow> pyfloat" where
  "py_min3 a b c = py_min (py_min a b) c"

subsection \<open>Objects and the scene\<close>

text \<open>
  A \<open>mathutils.Vector\<close> of three floats. An imported object carries the fields the block
  touches: \<open>name\<close> (set at import), \<open>scale\<close> and \<open>location\<close> (both vectors; the block
  writes them), and \<open>bound_box\<close>, the corners of the local bounding box that the host
  derives from the mesh (the host always gives eight).
\<close>

record vector =
  vec_x :: pyfloat
  vec_y :: pyfloat
  vec_z :: pyfloat

record spatial_object =
  name :: string
  scale :: vector
  location :: vector
  bound_box :: "vector list"

text \<open>
  The lists \<open>all_objects\<close> and \<open>ecs_objects\<close> hold references to the same host
  objects, and the block mutates the objects through \<open>all_objects\<close> and reads them
  through \<open>ecs_objects\<close>. References are handles into a store.
\<close>

type_synonym handle = nat

type_synonym store = "handle \<Rightarrow> spatial_object"

record scene =
  objs :: store
  all_objects :: "handle list"
  ecs_objects :: "handle list"

text \<open>
  \<open>obj.matrix_world @ Vector(vertex)\<close> (line 153). The world matrix belongs to the host,
  which composes it from the object's own fields as location, then rotation, then
  scale: a local point is multiplied by the scale, axis by axis, and the location is
  added, so an object is scaled about its own location. The objects of the scripts
  have no parent and their rotation was applied at import (lines 95 and 141), so the
  matrix has no other part. The matrix is taken from the current fields, as the host
  gives it once the scene is up to date.
\<close>

definition matrix_world :: "spatial_object \<Rightarrow> vector \<Rightarrow> vector" where
  "matrix_world ob vertex =
     \<lparr>vec_x = fadd (fmul (vec_x (scale ob)) (vec_x vertex)) (vec_x (location ob)),
      vec_y = fadd (fmul (vec_y (scale ob)) (vec_y vertex)) (vec_y (location ob)),
      vec_z = fadd (fmul (vec_z (scale ob)) (vec_z vertex)) (vec_z (location ob))\<rparr>"

subsection \<open>The bounding box of the ECS objects (lines 148-163)\<close>

record extent =
  ecs_min_x :: pyfloat
  ecs_min_y :: pyfloat
  ecs_min_z :: pyfloat
  ecs_max_x :: pyfloat
  ecs_max_y :: pyfloat
  ecs_max_z :: pyfloat

definition extent_init :: extent where
  "extent_init =
     \<lparr>ecs_min_x = PInf, ecs_min_y = PInf, ecs_min_z = PInf,
      ecs_max_x = NInf, ecs_max_y = NInf, ecs_max_z = NInf\<rparr>"

text \<open>The body of the inner loop (lines 154-159) for one world-space vertex.\<close>

definition extent_vertex :: "extent \<Rightarrow> vector \<Rightarrow> extent" where
  "extent_vertex e world_vertex =
     \<lparr>ecs_min_x = py_min (ecs_min_x e) (vec_x world_vertex),
      ecs_min_y = py_min (ecs_min_y e) (vec_y world_vertex),
      ecs_min_z = py_min (ecs_min_z e) (vec_z world_vertex),
      ecs_max_x = py_max (ecs_max_x e) (vec_x world_vertex),
      ecs_max_y = py_max (ecs_max_y e) (vec_y world_vertex),
      ecs_max_z = py_max (ecs_max_z e) (vec_z world_vertex)\<rparr>"

definition extent_object :: "extent \<Rightarrow> spatial_object \<Rightarrow> extent" where
  "extent_object e ob =
     foldl (\<lambda>e' vertex. extent_vertex e' (matrix_world ob vertex)) e (bound_box ob)"

definition ecs_extent :: "scene \<Rightarrow> extent" where
  "ecs_extent sc =
     foldl (\<lambda>e h. extent_object e (objs sc h)) extent_init (ecs_objects sc)"

definition ecs_size_x :: "extent \<Rightarrow> pyfloat" where
  "ecs_size_x e = fsub (ecs_max_x e) (ecs_min_x e)"

definition ecs_size_y :: "extent \<Rightarrow> pyfloat" where
  "ecs_size_y e = fsub (ecs_max_y e) (ecs_min_y e)"

definition ecs_size_z :: "extent \<Rightarrow> pyfloat" where
  "ecs_size_z e = fsub (ecs_max_z e) (ecs_min_z e)"

subsection \<open>The scaling factor (lines 166-169)\<close>

definition min_dimension :: "extent \<Rightarrow> pyfloat" where
  "min_dimension e = py_min3 (ecs_size_x e) (ecs_size_y e) (ecs_size_z e)"

definition scaling_factor :: "extent \<Rightarrow> error + pyfloat" where
  "scaling_factor e =
     (if fgt (min_dimension e) (Fin 0) then fdiv (Fin 1) (min_dimension e)
      else Inr (Fin 1))"

subsection \<open>Rescaling every imported object (lines 172-173)\<close>

text \<open>\<open>obj.scale *= scaling_factor\<close>: a vector times a float, in place.\<close>

definition vec_mul :: "vector \<Rightarrow> pyfloat \<Rightarrow> vector" where
  "vec_mul v s = \<lparr>vec_x = fmul (vec_x v) s, vec_y = fmul (vec_y v) s, vec_z = fmul (vec_z v) s\<rparr>"

definition rescale :: "pyfloat \<Rightarrow> store \<Rightarrow> handle \<Rightarrow> store" where
  "rescale s st h = st(h := (st h)\<lparr>scale := vec_mul (scale (st h)) s\<rparr>)"

definition rescale_all :: "pyfloat \<Rightarrow> handle list \<Rightarrow> store \<Rightarrow> store" where
  "rescale_all s hs st = foldl (rescale s) st hs"

subsection \<open>The centre of the scaled box (lines 176-178)\<close>

text \<open>\<open>(ecs_min + ecs_max) / 2\<close>, the midpoint of an extent along each axis.\<close>

definition extent_mid :: "extent \<Rightarrow> error + vector" where
  "extent_mid e =
     (case fdiv (fadd (ecs_min_x e) (ecs_max_x e)) (Fin 2) of
        Inl err \<Rightarrow> Inl err
      | Inr mx \<Rightarrow>
          (case fdiv (fadd (ecs_min_y e) (ecs_max_y e)) (Fin 2) of
             Inl err \<Rightarrow> Inl err
           | Inr my \<Rightarrow>
               (case fdiv (fadd (ecs_min_z e) (ecs_max_z e)) (Fin 2) of
                  Inl err \<Rightarrow> Inl err
                | Inr mz \<Rightarrow> Inr \<lparr>vec_x = mx, vec_y = my, vec_z = mz\<rparr>)))"

text \<open>\<open>(ecs_min + ecs_max) / 2 * scaling_factor\<close>, per axis.\<close>

definition ecs_center :: "extent \<Rightarrow> pyfloat \<Rightarrow> error + vector" where
  "ecs_center e s =
     (case extent_mid e of Inl err \<Rightarrow> Inl err | Inr m \<Rightarrow> Inr (vec_mul m s))"

subsection \<open>Shifting every imported object (lines 181-184)\<close>

definition vec_sub :: "vector \<Rightarrow> vector \<Rightarrow> vector" where
  "vec_sub v c =
     \<lparr>vec_x = fsub (vec_x v) (vec_x c), vec_y = fsub (vec_y v) (vec_y c),
      vec_z = fsub (vec_z v) (vec_z c)\<rparr>"

definition shift :: "vector \<Rightarrow> store \<Rightarrow> handle \<Rightarrow> store" where
  "shift c st h = st(h := (st h)\<lparr>location := vec_sub (location (st h)) c\<rparr>)"

definition shift_all :: "vector \<Rightarrow> handle list \<Rightarrow> store \<Rightarrow> store" where
  "shift_all c hs st = foldl (shift c) st hs"

subsection \<open>The block (lines 147-184)\<close>

text \<open>
  The block is skipped when \<open>ecs_objects\<close> is empty. Otherwise the extent is read in
  full, then every object of \<open>all_objects\<close> is rescaled, then the centre is computed
  from the extent read before the rescaling, then every object of \<open>all_objects\<close> is
  shifted. The result is the scene after the block, or the exception a division raised.
\<close>

definition normalize :: "scene \<Rightarrow> error + scene" where
  "normalize sc =
     (if ecs_objects sc = [] then Inr sc
      else
        (case scaling_factor (ecs_extent sc) of
           Inl err \<Rightarrow> Inl err
         | Inr s \<Rightarrow>
             (case ecs_center (ecs_extent sc) s of
                Inl err \<Rightarrow> Inl err
              | Inr c \<Rightarrow>
                  Inr (sc\<lparr>objs :=
                    shift_all c (all_objects sc)
                      (rescale_all s (all_objects sc) (objs sc))\<rparr>))))"

subsection \<open>Vocabulary of the statements\<close>

definition zero_vector :: vector where
  "zero_vector = \<lparr>vec_x = Fin 0, vec_y = Fin 0, vec_z = Fin 0\<rparr>"

definition fin_vec :: "vector \<Rightarrow> bool" where
  "fin_vec v \<longleftrightarrow> is_fin (vec_x v) \<and> is_fin (vec_y v) \<and> is_fin (vec_z v)"



text \<open>
  An object as the host hands it over: finite scale and location, and the eight finite
  corners of its bounding box.
\<close>

definition wf_object :: "spatial_object \<Rightarrow> bool" where
  "wf_object ob \<longleftrightarrow>
     fin_vec (scale ob) \<and> fin_vec (location ob) \<and>
     length (bound_box ob) = 8 \<and> (\<forall>v \<in> set (bound_box ob). fin_vec v)"

definition wf_ecs :: "scene \<Rightarrow> bool" where
  "wf_ecs sc \<longleftrightarrow> (\<forall>h \<in> set (ecs_objects sc). wf_object (objs sc h))"

text \<open>
  The lists as the import loops build them (lines 55-61 and 100-106): every import
  appends a fresh object to \<open>all_objects\<close>, and every ECS object is appended to both
  lists.
\<close>

definition wf_scene :: "scene \<Rightarrow> bool" where
  "wf_scene sc \<longleftrightarrow>
     distinct (all_objects sc) \<and> set (ecs_objects sc) \<subseteq> set (all_objects sc) \<and>
     (\<forall>h \<in> set (all_objects sc). wf_object (objs sc h))"

text \<open>One object after \<open>obj.scale *= s\<close> and \<open>obj.location -= c\<close>.\<close>

definition transform :: "pyfloat \<Rightarrow> vector \<Rightarrow> spatial_object \<Rightarrow> spatial_object" where
  "transform s c ob =
     ob\<lparr>scale := vec_mul (scale ob) s, location := vec_sub (location ob) c\<rparr>"

text \<open>The scene with every object of \<open>all_objects\<close> rescaled by \<open>s\<close> and shifted by \<open>c\<close>.\<close>

definition moved :: "real \<Rightarrow> vector \<Rightarrow> scene \<Rightarrow> scene" where
  "moved s c sc =
     sc\<lparr>objs := (\<lambda>h. if h \<in> set (all_objects sc)
        then transform (Fin s) c (objs sc h) else objs sc h)\<rparr>"

subsection \<open>The block in real arithmetic\<close>

text \<open>
  The world-space corners of the ECS objects, in the order the loops visit them, and
  their real coordinates along one axis.
\<close>

definition world_points :: "scene \<Rightarrow> vector list" where
  "world_points sc =
     concat (map (\<lambda>h. map (matrix_world (objs sc h)) (bound_box (objs sc h)))
       (ecs_objects sc))"

definition coords :: "(vector \<Rightarrow> pyfloat) \<Rightarrow> scene \<Rightarrow> real list" where
  "coords p sc = map (\<lambda>v. the_real (p v)) (world_points sc)"

definition lo :: "(vector \<Rightarrow> pyfloat) \<Rightarrow> scene \<Rightarrow> real" where
  "lo p sc = Min (set (coords p sc))"

definition hi :: "(vector \<Rightarrow> pyfloat) \<Rightarrow> scene \<Rightarrow> real" where
  "hi p sc = Max (set (coords p sc))"

definition real_min_dimension :: "scene \<Rightarrow> real" where
  "real_min_dimension sc =
     min (min (hi vec_x sc - lo vec_x sc) (hi vec_y sc - lo vec_y sc))
       (hi vec_z sc - lo vec_z sc)"

definition real_scaling_factor :: "scene \<Rightarrow> real" where
  "real_scaling_factor sc =
     (if 0 < real_min_dimension sc then 1 / real_min_dimension sc else 1)"

definition real_center :: "scene \<Rightarrow> vector" where
  "real_center sc =
     \<lparr>vec_x = Fin ((lo vec_x sc + hi vec_x sc) / 2 * real_scaling_factor sc),
      vec_y = Fin ((lo vec_y sc + hi vec_y sc) / 2 * real_scaling_factor sc),
      vec_z = Fin ((lo vec_z sc + hi vec_z sc) / 2 * real_scaling_factor sc)\<rparr>"

definition after :: "scene \<Rightarrow> scene" where
  "after sc = moved (real_scaling_factor sc) (real_center sc) sc"

text \<open>
  Rescaling an object at location \<open>t\<close> by \<open>s\<close> and shifting it by \<open>c\<close> sends the world
  coordinate \<open>r\<close> of each of its corners to \<open>s * r + drift s t c\<close>.
\<close>

definition drift :: "real \<Rightarrow> pyfloat \<Rightarrow> pyfloat \<Rightarrow> real" where
  "drift s t c = the_real t - the_real c - s * the_real t"

subsection \<open>Concrete scenes\<close>

text \<open>
  \<open>Vector a b c\<close> is a vector of three finite floats. \<open>box_corners\<close> lists the eight
  corners of an axis-aligned box in the order the host lists them in \<open>bound_box\<close>.
  The objects below are as the import leaves them (scale one, location zero, the
  position carried by the corners) unless a scene says otherwise.
\<close>

definition Vector :: "real \<Rightarrow> real \<Rightarrow> real \<Rightarrow> vector" where
  "Vector a b c = \<lparr>vec_x = Fin a, vec_y = Fin b, vec_z = Fin c\<rparr>"

definition box_corners :: "real \<Rightarrow> real \<Rightarrow> real \<Rightarrow> real \<Rightarrow> real \<Rightarrow> real \<Rightarrow> vector list" where
  "box_corners x0 y0 z0 x1 y1 z1 =
     [Vector x0 y0 z0, Vector x0 y0 z1, Vector x0 y1 z1, Vector x0 y1 z0,
      Vector x1 y0 z0, Vector x1 y0 z1, Vector x1 y1 z1, Vector x1 y1 z0]"

definition box_object :: "real \<Rightarrow> real \<Rightarrow> real \<Rightarrow> spatial_object" where
  "box_object a b c =
     \<lparr>name = ''ECS_box.ply'', scale = Vector 1 1 1, location = Vector 0 0 0,
      bound_box = box_corners a b c (a + 2) (b + 4) (c + 8)\<rparr>"

definition box_scene :: "real \<Rightarrow> real \<Rightarrow> real \<Rightarrow> scene" where
  "box_scene a b c = \<lparr>objs = (\<lambda>h. box_object a b c), all_objects = [0], ecs_objects = [0]\<rparr>"

definition cell_object :: spatial_object where
  "cell_object =
     \<lparr>name = ''Cell_a.ply'', scale = Vector 1 1 1, location = Vector 0 0 0,
      bound_box = box_corners 3 1 0 4 2 1\<rparr>"

definition matrix_cell_scene :: scene where
  "matrix_cell_scene =
     \<lparr>objs = (\<lambda>h. if h = 0 then box_object 0 0 0 else cell_object),
      all_objects = [0, 1], ecs_objects = [0]\<rparr>"


definition point_object :: spatial_object where
  "point_object =
     \<lparr>name = ''ECS_point.ply'', scale = Vector 1 1 1, location = Vector 0 0 0,
      bound_box = box_corners 1 2 3 1 2 3\<rparr>"

definition degenerate_scene :: scene where
  "degenerate_scene =
     \<lparr>objs = (\<lambda>h. if h = 0 then point_object else cell_object),
      all_objects = [0, 1], ecs_objects = [0]\<rparr>"

definition cells_only_scene :: scene where
  "cells_only_scene = \<lparr>objs = (\<lambda>h. cell_object), all_objects = [0], ecs_objects = []\<rparr>"

definition shifted_box_object :: spatial_object where
  "shifted_box_object =
     \<lparr>name = ''ECS_box.ply'', scale = Vector 1 1 1, location = Vector 1 0 0,
      bound_box = box_corners 0 0 0 2 4 8\<rparr>"

definition shifted_box_scene :: scene where
  "shifted_box_scene =
     \<lparr>objs = (\<lambda>h. shifted_box_object), all_objects = [0], ecs_objects = [0]\<rparr>"

definition cube_object :: "vector \<Rightarrow> spatial_object" where
  "cube_object t =
     \<lparr>name = ''ECS_cube.ply'', scale = Vector 1 1 1, location = t,
      bound_box = box_corners 0 0 0 2 2 2\<rparr>"

definition two_cubes_scene :: scene where
  "two_cubes_scene =
     \<lparr>objs = (\<lambda>h. if h = 0 then cube_object (Vector 0 0 0) else cube_object (Vector 2 2 2)),
      all_objects = [0, 1], ecs_objects = [0, 1]\<rparr>"

section \<open>Lemmas\<close>

subsection \<open>Floats and running extremes\<close>

lemma is_fin_iff: "is_fin a \<longleftrightarrow> (\<exists>r. a = Fin r)"
  by (cases a) simp_all

lemma fsub_Fin [simp]: "fsub (Fin a) (Fin b) = Fin (a - b)"
  by (simp add: fsub_def)

lemma fmul_one [simp]: "fmul a (Fin 1) = a"
  by (cases a) (simp_all add: inf_of_sign_def)

lemma fsub_zero [simp]: "fsub a (Fin 0) = a"
  by (cases a) (simp_all add: fsub_def)

lemma py_min_Fin [simp]: "py_min (Fin a) (Fin b) = Fin (min a b)"
  by (simp add: py_min_def min_def)

lemma py_max_Fin [simp]: "py_max (Fin a) (Fin b) = Fin (max a b)"
  by (simp add: py_max_def fgt_def max_def)

lemma py_min_PInf [simp]: "py_min PInf (Fin b) = Fin b"
  by (simp add: py_min_def)

lemma py_max_NInf [simp]: "py_max NInf (Fin b) = Fin b"
  by (simp add: py_max_def fgt_def)

lemma py_min3_Fin [simp]: "py_min3 (Fin a) (Fin b) (Fin c) = Fin (min (min a b) c)"
  by (simp add: py_min3_def)

lemma foldl_py_min_Fin:
  "foldl py_min (Fin a) (map Fin rs) = Fin (Min (insert a (set rs)))"
proof (induction rs arbitrary: a)
  case Nil
  show ?case by simp
next
  case (Cons r rs)
  have "Min (insert (min a r) (set rs)) = Min (insert a (insert r (set rs)))"
    by (cases "set rs = {}") (simp_all add: min.assoc)
  with Cons show ?case by simp
qed

lemma foldl_py_max_Fin:
  "foldl py_max (Fin a) (map Fin rs) = Fin (Max (insert a (set rs)))"
proof (induction rs arbitrary: a)
  case Nil
  show ?case by simp
next
  case (Cons r rs)
  have "Max (insert (max a r) (set rs)) = Max (insert a (insert r (set rs)))"
    by (cases "set rs = {}") (simp_all add: max.assoc)
  with Cons show ?case by simp
qed

lemma running_min:
  "rs \<noteq> [] \<Longrightarrow> foldl py_min PInf (map Fin rs) = Fin (Min (set rs))"
  by (cases rs) (simp_all add: foldl_py_min_Fin)

lemma running_max:
  "rs \<noteq> [] \<Longrightarrow> foldl py_max NInf (map Fin rs) = Fin (Max (set rs))"
  by (cases rs) (simp_all add: foldl_py_max_Fin)




lemma extent_vertex_fold:
  "ecs_min_x (foldl extent_vertex e ps) = foldl py_min (ecs_min_x e) (map vec_x ps)"
  "ecs_min_y (foldl extent_vertex e ps) = foldl py_min (ecs_min_y e) (map vec_y ps)"
  "ecs_min_z (foldl extent_vertex e ps) = foldl py_min (ecs_min_z e) (map vec_z ps)"
  "ecs_max_x (foldl extent_vertex e ps) = foldl py_max (ecs_max_x e) (map vec_x ps)"
  "ecs_max_y (foldl extent_vertex e ps) = foldl py_max (ecs_max_y e) (map vec_y ps)"
  "ecs_max_z (foldl extent_vertex e ps) = foldl py_max (ecs_max_z e) (map vec_z ps)"
  by (induction ps arbitrary: e) (simp_all add: extent_vertex_def)

lemma extent_object_map:
  "extent_object e ob = foldl extent_vertex e (map (matrix_world ob) (bound_box ob))"
  by (simp add: extent_object_def foldl_map)

lemma ecs_extent_world_points:
  "ecs_extent sc = foldl extent_vertex extent_init (world_points sc)"
proof -
  have "foldl (\<lambda>e h. extent_object e (st h)) e hs =
        foldl extent_vertex e
          (concat (map (\<lambda>h. map (matrix_world (st h)) (bound_box (st h))) hs))"
    for st e hs
    by (induction hs arbitrary: e) (simp_all add: extent_object_map)
  then show ?thesis by (simp add: ecs_extent_def world_points_def)
qed

lemma Fin_the_real: "is_fin a \<Longrightarrow> Fin (the_real a) = a"
  by (cases a) simp_all


lemma fin_vecE:
  assumes "fin_vec v"
  obtains a b c where "v = \<lparr>vec_x = Fin a, vec_y = Fin b, vec_z = Fin c\<rparr>"
  using assms by (cases v) (auto simp: fin_vec_def is_fin_iff)

lemma fin_vec_Fin [simp]: "fin_vec \<lparr>vec_x = Fin a, vec_y = Fin b, vec_z = Fin c\<rparr>"
  by (simp add: fin_vec_def)

lemma transform_fields [simp]:
  "scale (transform s c ob) = vec_mul (scale ob) s"
  "location (transform s c ob) = vec_sub (location ob) c"
  "bound_box (transform s c ob) = bound_box ob"
  "name (transform s c ob) = name ob"
  by (simp_all add: transform_def)

lemma matrix_world_transform:
  assumes "wf_object ob" and "fin_vec c" and "v \<in> set (bound_box ob)"
  shows "fin_vec (matrix_world ob v)"
    and "fin_vec (matrix_world (transform (Fin s) c ob) v)"
    and "the_real (vec_x (matrix_world (transform (Fin s) c ob) v)) =
           s * the_real (vec_x (matrix_world ob v)) + drift s (vec_x (location ob)) (vec_x c)"
    and "the_real (vec_y (matrix_world (transform (Fin s) c ob) v)) =
           s * the_real (vec_y (matrix_world ob v)) + drift s (vec_y (location ob)) (vec_y c)"
    and "the_real (vec_z (matrix_world (transform (Fin s) c ob) v)) =
           s * the_real (vec_z (matrix_world ob v)) + drift s (vec_z (location ob)) (vec_z c)"
proof -
  from assms(1) have fs: "fin_vec (scale ob)" and fl: "fin_vec (location ob)"
    by (simp_all add: wf_object_def)
  from assms(1,3) have fv: "fin_vec v"
    by (simp add: wf_object_def)
  from fs obtain sx sy sz where S: "scale ob = \<lparr>vec_x = Fin sx, vec_y = Fin sy, vec_z = Fin sz\<rparr>"
    by (rule fin_vecE)
  from fl obtain lx ly lz where L: "location ob = \<lparr>vec_x = Fin lx, vec_y = Fin ly, vec_z = Fin lz\<rparr>"
    by (rule fin_vecE)
  from fv obtain a b d where V: "v = \<lparr>vec_x = Fin a, vec_y = Fin b, vec_z = Fin d\<rparr>"
    by (rule fin_vecE)
  from assms(2) obtain cx cy cz where C: "c = \<lparr>vec_x = Fin cx, vec_y = Fin cy, vec_z = Fin cz\<rparr>"
    by (rule fin_vecE)
  show "fin_vec (matrix_world ob v)"
    by (simp add: matrix_world_def S L V)
  show "fin_vec (matrix_world (transform (Fin s) c ob) v)"
    by (simp add: matrix_world_def S L V C vec_mul_def vec_sub_def)
  show "the_real (vec_x (matrix_world (transform (Fin s) c ob) v)) =
           s * the_real (vec_x (matrix_world ob v)) + drift s (vec_x (location ob)) (vec_x c)"
    by (simp add: matrix_world_def S L V C vec_mul_def vec_sub_def drift_def algebra_simps)
  show "the_real (vec_y (matrix_world (transform (Fin s) c ob) v)) =
           s * the_real (vec_y (matrix_world ob v)) + drift s (vec_y (location ob)) (vec_y c)"
    by (simp add: matrix_world_def S L V C vec_mul_def vec_sub_def drift_def algebra_simps)
  show "the_real (vec_z (matrix_world (transform (Fin s) c ob) v)) =
           s * the_real (vec_z (matrix_world ob v)) + drift s (vec_z (location ob)) (vec_z c)"
    by (simp add: matrix_world_def S L V C vec_mul_def vec_sub_def drift_def algebra_simps)
qed


lemma wf_scene_ecs: "wf_scene sc \<Longrightarrow> wf_ecs sc"
  by (auto simp: wf_scene_def wf_ecs_def)

lemma world_points_fin:
  assumes "wf_ecs sc" and "v \<in> set (world_points sc)"
  shows "fin_vec v"
  using assms matrix_world_transform(1) [OF _ fin_vec_Fin [of 0 0 0]]
  by (auto simp: world_points_def wf_ecs_def)

lemma world_points_nonempty:
  assumes "wf_ecs sc" and "ecs_objects sc \<noteq> []"
  shows "world_points sc \<noteq> []"
proof -
  from assms(2) obtain h where h: "h \<in> set (ecs_objects sc)"
    by (cases "ecs_objects sc") auto
  with assms(1) have "length (bound_box (objs sc h)) = 8"
    by (simp add: wf_ecs_def wf_object_def)
  then have "bound_box (objs sc h) \<noteq> []" by auto
  with h show ?thesis by (auto simp: world_points_def)
qed

lemma coords_nonempty:
  "wf_ecs sc \<Longrightarrow> ecs_objects sc \<noteq> [] \<Longrightarrow> coords p sc \<noteq> []"
  by (simp add: coords_def world_points_nonempty)

lemma map_world_points:
  assumes "wf_ecs sc"
  shows "map vec_x (world_points sc) = map Fin (coords vec_x sc)"
    and "map vec_y (world_points sc) = map Fin (coords vec_y sc)"
    and "map vec_z (world_points sc) = map Fin (coords vec_z sc)"
  unfolding coords_def
  using world_points_fin [OF assms]
  by (auto simp: fin_vec_def Fin_the_real)

lemma ecs_extent_fin:
  assumes "wf_ecs sc" and "ecs_objects sc \<noteq> []"
  shows "ecs_min_x (ecs_extent sc) = Fin (Min (set (coords vec_x sc)))"
    and "ecs_min_y (ecs_extent sc) = Fin (Min (set (coords vec_y sc)))"
    and "ecs_min_z (ecs_extent sc) = Fin (Min (set (coords vec_z sc)))"
    and "ecs_max_x (ecs_extent sc) = Fin (Max (set (coords vec_x sc)))"
    and "ecs_max_y (ecs_extent sc) = Fin (Max (set (coords vec_y sc)))"
    and "ecs_max_z (ecs_extent sc) = Fin (Max (set (coords vec_z sc)))"
  using coords_nonempty [OF assms]
  by (simp_all add: ecs_extent_world_points extent_vertex_fold extent_init_def
      map_world_points [OF assms(1)] running_min running_max)


subsection \<open>The two loops over the store\<close>

lemma rescale_all_apply:
  "distinct hs \<Longrightarrow>
   rescale_all s hs st h =
     (if h \<in> set hs then (st h)\<lparr>scale := vec_mul (scale (st h)) s\<rparr> else st h)"
  unfolding rescale_all_def
  by (induction hs arbitrary: st) (auto simp: rescale_def)

lemma shift_all_apply:
  "distinct hs \<Longrightarrow>
   shift_all c hs st h =
     (if h \<in> set hs then (st h)\<lparr>location := vec_sub (location (st h)) c\<rparr> else st h)"
  unfolding shift_all_def
  by (induction hs arbitrary: st) (auto simp: shift_def)

lemma loops_apply:
  "distinct hs \<Longrightarrow>
   shift_all c hs (rescale_all s hs st) =
     (\<lambda>h. if h \<in> set hs then transform s c (st h) else st h)"
  by (rule ext) (simp add: shift_all_apply rescale_all_apply transform_def)

lemma rescale_all_frame:
  "bound_box (rescale_all s hs st h) = bound_box (st h)"
  "name (rescale_all s hs st h) = name (st h)"
  "location (rescale_all s hs st h) = location (st h)"
  "h \<notin> set hs \<Longrightarrow> rescale_all s hs st h = st h"
  unfolding rescale_all_def
  by (induction hs arbitrary: st) (simp_all add: rescale_def)

lemma shift_all_frame:
  "bound_box (shift_all c hs st h) = bound_box (st h)"
  "name (shift_all c hs st h) = name (st h)"
  "scale (shift_all c hs st h) = scale (st h)"
  "h \<notin> set hs \<Longrightarrow> shift_all c hs st h = st h"
  unfolding shift_all_def
  by (induction hs arbitrary: st) (simp_all add: shift_def)


subsection \<open>The block never raises\<close>

lemma fdiv_two: "\<exists>q. fdiv a (Fin 2) = Inr q"
  by (cases a) simp_all

lemma scaling_factor_total: "\<exists>s. scaling_factor e = Inr s"
  by (cases "min_dimension e") (simp_all add: scaling_factor_def fgt_def)

lemma extent_mid_total: "\<exists>m. extent_mid e = Inr m"
proof -
  obtain mx where "fdiv (fadd (ecs_min_x e) (ecs_max_x e)) (Fin 2) = Inr mx"
    using fdiv_two by blast
  moreover obtain my where "fdiv (fadd (ecs_min_y e) (ecs_max_y e)) (Fin 2) = Inr my"
    using fdiv_two by blast
  moreover obtain mz where "fdiv (fadd (ecs_min_z e) (ecs_max_z e)) (Fin 2) = Inr mz"
    using fdiv_two by blast
  ultimately show ?thesis by (simp add: extent_mid_def)
qed

lemma ecs_center_total: "\<exists>c. ecs_center e s = Inr c"
  using extent_mid_total [of e] by (auto simp: ecs_center_def)

lemma normalize_total: "\<exists>sc'. normalize sc = Inr sc'"
proof -
  obtain s where s: "scaling_factor (ecs_extent sc) = Inr s"
    using scaling_factor_total by blast
  obtain c where "ecs_center (ecs_extent sc) s = Inr c"
    using ecs_center_total by blast
  with s show ?thesis by (simp add: normalize_def)
qed


subsection \<open>The block on finite reference objects\<close>


lemma ecs_size_fin:
  assumes "wf_ecs sc" and "ecs_objects sc \<noteq> []"
  shows "ecs_size_x (ecs_extent sc) = Fin (hi vec_x sc - lo vec_x sc)"
    and "ecs_size_y (ecs_extent sc) = Fin (hi vec_y sc - lo vec_y sc)"
    and "ecs_size_z (ecs_extent sc) = Fin (hi vec_z sc - lo vec_z sc)"
  by (simp_all add: ecs_size_x_def ecs_size_y_def ecs_size_z_def ecs_extent_fin [OF assms]
      lo_def hi_def)

lemma min_dimension_fin:
  assumes "wf_ecs sc" and "ecs_objects sc \<noteq> []"
  shows "min_dimension (ecs_extent sc) = Fin (real_min_dimension sc)"
  by (simp add: min_dimension_def ecs_size_fin [OF assms] real_min_dimension_def)

lemma scaling_factor_fin:
  assumes "wf_ecs sc" and "ecs_objects sc \<noteq> []"
  shows "scaling_factor (ecs_extent sc) = Inr (Fin (real_scaling_factor sc))"
  by (simp add: scaling_factor_def min_dimension_fin [OF assms] fgt_def
      real_scaling_factor_def)

lemma extent_mid_fin:
  assumes "wf_ecs sc" and "ecs_objects sc \<noteq> []"
  shows "extent_mid (ecs_extent sc) =
     Inr \<lparr>vec_x = Fin ((lo vec_x sc + hi vec_x sc) / 2),
          vec_y = Fin ((lo vec_y sc + hi vec_y sc) / 2),
          vec_z = Fin ((lo vec_z sc + hi vec_z sc) / 2)\<rparr>"
  by (simp add: extent_mid_def ecs_extent_fin [OF assms] lo_def hi_def)

lemma ecs_center_fin:
  assumes "wf_ecs sc" and "ecs_objects sc \<noteq> []"
  shows "ecs_center (ecs_extent sc) (Fin (real_scaling_factor sc)) = Inr (real_center sc)"
  by (simp add: ecs_center_def extent_mid_fin [OF assms] vec_mul_def real_center_def)

lemma real_center_fin: "fin_vec (real_center sc)"
  by (simp add: real_center_def)

lemma normalize_fin:
  assumes "wf_scene sc" and "ecs_objects sc \<noteq> []"
  shows "normalize sc = Inr (after sc)"
proof -
  have e: "wf_ecs sc" using assms(1) by (rule wf_scene_ecs)
  have d: "distinct (all_objects sc)" using assms(1) by (simp add: wf_scene_def)
  show ?thesis
    by (simp add: normalize_def assms(2) scaling_factor_fin [OF e assms(2)]
        ecs_center_fin [OF e assms(2)] loops_apply [OF d] after_def moved_def)
qed

lemma moved_lists [simp]:
  "all_objects (moved s c sc) = all_objects sc"
  "ecs_objects (moved s c sc) = ecs_objects sc"
  by (simp_all add: moved_def)

lemma moved_objs:
  "h \<in> set (all_objects sc) \<Longrightarrow> objs (moved s c sc) h = transform (Fin s) c (objs sc h)"
  "h \<notin> set (all_objects sc) \<Longrightarrow> objs (moved s c sc) h = objs sc h"
  by (simp_all add: moved_def)

lemma vec_mul_fin: "fin_vec v \<Longrightarrow> fin_vec (vec_mul v (Fin s))"
  by (erule fin_vecE) (simp add: vec_mul_def)

lemma vec_sub_fin: "fin_vec v \<Longrightarrow> fin_vec c \<Longrightarrow> fin_vec (vec_sub v c)"
  by (erule fin_vecE, erule fin_vecE) (simp add: vec_sub_def)

lemma transform_wf:
  "wf_object ob \<Longrightarrow> fin_vec c \<Longrightarrow> wf_object (transform (Fin s) c ob)"
  by (simp add: wf_object_def vec_mul_fin vec_sub_fin)

lemma moved_wf:
  assumes "wf_scene sc" and "fin_vec c"
  shows "wf_scene (moved s c sc)"
  using assms by (simp add: wf_scene_def moved_objs transform_wf)



lemma after_wf: "wf_scene sc \<Longrightarrow> wf_scene (after sc)"
  by (simp add: after_def moved_wf real_center_fin)



lemma zero_vector_sel [simp]:
  "vec_x zero_vector = Fin 0" "vec_y zero_vector = Fin 0" "vec_z zero_vector = Fin 0"
  by (simp_all add: zero_vector_def)


lemma vec_sub_zero [simp]: "vec_sub v zero_vector = v"
  by (simp add: vec_sub_def)

lemma vec_mul_one [simp]: "vec_mul v (Fin 1) = v"
  by (simp add: vec_mul_def)

lemma transform_identity [simp]: "transform (Fin 1) zero_vector ob = ob"
  by (simp add: transform_def)

lemma moved_identity [simp]: "moved 1 zero_vector sc = sc"
  by (simp add: moved_def cong: if_cong)

lemma real_center_sel [simp]:
  "vec_x (real_center sc) = Fin ((lo vec_x sc + hi vec_x sc) / 2 * real_scaling_factor sc)"
  "vec_y (real_center sc) = Fin ((lo vec_y sc + hi vec_y sc) / 2 * real_scaling_factor sc)"
  "vec_z (real_center sc) = Fin ((lo vec_z sc + hi vec_z sc) / 2 * real_scaling_factor sc)"
  by (simp_all add: real_center_def)






lemma fle_not_fgt: "fle a b \<Longrightarrow> \<not> fgt a b"
  by (cases a; cases b) (simp_all add: fgt_def)

lemma rescale_one [simp]: "rescale (Fin 1) st h = st"
  by (simp add: rescale_def)

lemma shift_zero [simp]: "shift zero_vector st h = st"
  by (simp add: shift_def)

lemma rescale_all_one [simp]: "rescale_all (Fin 1) hs st = st"
  unfolding rescale_all_def by (induction hs) simp_all

lemma shift_all_zero [simp]: "shift_all zero_vector hs st = st"
  unfolding shift_all_def by (induction hs) simp_all







lemma vec_sub_cancel:
  assumes "fin_vec a" and "fin_vec b" and "fin_vec c"
  shows "vec_sub (vec_sub a c) (vec_sub b c) = vec_sub a b"
  using assms
  by (elim fin_vecE) (simp add: vec_sub_def)

subsection \<open>Evaluating the block on the concrete scenes\<close>

lemmas extent_eval = extent_object_def extent_vertex_def extent_init_def matrix_world_def
  py_min_def py_max_def fgt_def Vector_def box_corners_def

lemmas size_eval = scaling_factor_def min_dimension_def ecs_size_x_def ecs_size_y_def
  ecs_size_z_def fgt_def


lemma fin_vec_Vector [simp]: "fin_vec (Vector a b c)"
  by (simp add: Vector_def)

lemma wf_box_corners:
  "length (box_corners x0 y0 z0 x1 y1 z1) = 8"
  "\<forall>v \<in> set (box_corners x0 y0 z0 x1 y1 z1). fin_vec v"
  by (simp_all add: box_corners_def)

lemma wf_objects [simp]:
  "wf_object (box_object a b c)" "wf_object cell_object" "wf_object point_object"
  "wf_object (cube_object (Vector a b c))" "wf_object shifted_box_object"
  by (simp_all add: wf_object_def box_object_def cell_object_def point_object_def
      cube_object_def shifted_box_object_def wf_box_corners)

lemma wf_scenes:
  "wf_scene (box_scene a b c)" "wf_scene matrix_cell_scene" "wf_scene degenerate_scene"
  "wf_scene two_cubes_scene" "wf_scene shifted_box_scene"
  by (simp_all add: wf_scene_def box_scene_def matrix_cell_scene_def degenerate_scene_def
      two_cubes_scene_def shifted_box_scene_def)

lemma normalize_moved:
  assumes "distinct (all_objects sc)" and "ecs_objects sc \<noteq> []"
    and "scaling_factor (ecs_extent sc) = Inr (Fin s)"
    and "ecs_center (ecs_extent sc) (Fin s) = Inr c"
  shows "normalize sc = Inr (moved s c sc)"
  using assms by (simp add: normalize_def loops_apply moved_def)

lemma box_object_extent:
  "extent_object extent_init (box_object a b c) =
     \<lparr>ecs_min_x = Fin a, ecs_min_y = Fin b, ecs_min_z = Fin c,
      ecs_max_x = Fin (a + 2), ecs_max_y = Fin (b + 4), ecs_max_z = Fin (c + 8)\<rparr>"
  by (simp add: box_object_def extent_eval)

lemma box_extent:
  "ecs_extent (box_scene a b c) =
     \<lparr>ecs_min_x = Fin a, ecs_min_y = Fin b, ecs_min_z = Fin c,
      ecs_max_x = Fin (a + 2), ecs_max_y = Fin (b + 4), ecs_max_z = Fin (c + 8)\<rparr>"
  by (simp add: ecs_extent_def box_scene_def box_object_extent)

lemma box_factor: "scaling_factor (ecs_extent (box_scene a b c)) = Inr (Fin (1 / 2))"
  by (simp add: box_extent size_eval)

lemma box_center:
  "ecs_center (ecs_extent (box_scene a b c)) (Fin (1 / 2)) =
     Inr (Vector ((a + 1) / 2) ((b + 2) / 2) ((c + 4) / 2))"
  by (simp add: box_extent ecs_center_def extent_mid_def vec_mul_def Vector_def)

lemma box_normalize:
  "normalize (box_scene a b c) =
     Inr (moved (1 / 2) (Vector ((a + 1) / 2) ((b + 2) / 2) ((c + 4) / 2)) (box_scene a b c))"
  by (rule normalize_moved [OF _ _ box_factor box_center]) (simp_all add: box_scene_def)

lemma box_after_extent:
  "ecs_extent (moved (1 / 2) (Vector ((a + 1) / 2) ((b + 2) / 2) ((c + 4) / 2)) (box_scene a b c)) =
     \<lparr>ecs_min_x = Fin (- 1 / 2), ecs_min_y = Fin (- 1), ecs_min_z = Fin (- 2),
      ecs_max_x = Fin (1 / 2), ecs_max_y = Fin 1, ecs_max_z = Fin 2\<rparr>"
proof -
  have "extent_object extent_init
      (transform (Fin (1 / 2)) (Vector ((a + 1) / 2) ((b + 2) / 2) ((c + 4) / 2)) (box_object a b c)) =
     \<lparr>ecs_min_x = Fin (- 1 / 2), ecs_min_y = Fin (- 1), ecs_min_z = Fin (- 2),
      ecs_max_x = Fin (1 / 2), ecs_max_y = Fin 1, ecs_max_z = Fin 2\<rparr>"
    by (simp add: box_object_def transform_def vec_mul_def vec_sub_def extent_eval field_simps)
  then show ?thesis
    by (simp add: ecs_extent_def moved_def box_scene_def)
qed














lemma degenerate_extent:
  "ecs_extent degenerate_scene =
     \<lparr>ecs_min_x = Fin 1, ecs_min_y = Fin 2, ecs_min_z = Fin 3,
      ecs_max_x = Fin 1, ecs_max_y = Fin 2, ecs_max_z = Fin 3\<rparr>"
proof -
  have "extent_object extent_init point_object =
     \<lparr>ecs_min_x = Fin 1, ecs_min_y = Fin 2, ecs_min_z = Fin 3,
      ecs_max_x = Fin 1, ecs_max_y = Fin 2, ecs_max_z = Fin 3\<rparr>"
    by (simp add: point_object_def extent_eval)
  then show ?thesis
    by (simp add: ecs_extent_def degenerate_scene_def)
qed

lemma normalize_total_frame:
  "normalize sc = Inr sc' \<Longrightarrow> all_objects sc' = all_objects sc \<and> ecs_objects sc' = ecs_objects sc"
  by (auto simp: normalize_def split: if_splits sum.splits)

section \<open>The claims\<close>

text \<open>
  C3. The reference group is one object whose bounding corners form a 2 x 4 x 8
  axis-aligned box, with scale one and location zero; the box may sit anywhere (its
  least corner is \<open>(a, b, c)\<close>, so \<open>a = b = c = 0\<close> puts that corner at the origin and
  \<open>a = -1\<close>, \<open>b = -2\<close>, \<open>c = -4\<close> centres the box there). The block computes the scaling
  factor 0.5; afterwards the object has scale 0.5, its location is minus the scaled
  centre of the box, the recomputed bounding box has size (1, 2, 4) and its midpoint
  is the origin.
\<close>

theorem box_2_4_8_scenario:
  "scaling_factor (ecs_extent (box_scene a b c)) = Inr (Fin (1 / 2)) \<and>
   (\<exists>sc'. normalize (box_scene a b c) = Inr sc' \<and>
      scale (objs sc' 0) = Vector (1 / 2) (1 / 2) (1 / 2) \<and>
      location (objs sc' 0) = Vector (- (a + 1) / 2) (- (b + 2) / 2) (- (c + 4) / 2) \<and>
      ecs_size_x (ecs_extent sc') = Fin 1 \<and>
      ecs_size_y (ecs_extent sc') = Fin 2 \<and>
      ecs_size_z (ecs_extent sc') = Fin 4 \<and>
      extent_mid (ecs_extent sc') = Inr zero_vector)"
proof -
  let ?sc' = "moved (1 / 2) (Vector ((a + 1) / 2) ((b + 2) / 2) ((c + 4) / 2)) (box_scene a b c)"
  have "scale (objs ?sc' 0) = Vector (1 / 2) (1 / 2) (1 / 2)"
    by (simp add: moved_def box_scene_def box_object_def vec_mul_def Vector_def)
  moreover have "location (objs ?sc' 0) =
      Vector (- (a + 1) / 2) (- (b + 2) / 2) (- (c + 4) / 2)"
    by (simp add: moved_def box_scene_def box_object_def vec_sub_def Vector_def field_simps)
  moreover have "ecs_size_x (ecs_extent ?sc') = Fin 1"
    and "ecs_size_y (ecs_extent ?sc') = Fin 2"
    and "ecs_size_z (ecs_extent ?sc') = Fin 4"
    by (simp_all add: box_after_extent ecs_size_x_def ecs_size_y_def ecs_size_z_def)
  moreover have "extent_mid (ecs_extent ?sc') = Inr zero_vector"
    by (simp add: box_after_extent extent_mid_def zero_vector_def)
  ultimately show ?thesis
    using box_factor box_normalize by blast
qed







text \<open>
  C5. When \<open>ecs_objects\<close> is empty the block is skipped: it raises nothing and the scene
  after it is the scene before it, so no object's scale or location changes. That
  scene is also what applying the scale factor 1.0 and the zero offset to every object
  gives.
\<close>

theorem empty_reference_group_noop:
  assumes "ecs_objects sc = []"
  shows "normalize sc = Inr sc \<and>
     sc\<lparr>objs := shift_all zero_vector (all_objects sc)
       (rescale_all (Fin 1) (all_objects sc) (objs sc))\<rparr> = sc"
  using assms by (simp add: normalize_def)

text \<open>The hypothesis of C5 holds in the scene that holds a cell and no ECS object.\<close>

theorem empty_reference_group_noop_witness:
  "ecs_objects cells_only_scene = [] \<and> normalize cells_only_scene = Inr cells_only_scene"
proof -
  have e: "ecs_objects cells_only_scene = []"
    by (simp add: cells_only_scene_def)
  from empty_reference_group_noop [OF e] e show ?thesis by simp
qed

text \<open>
  C8. For every scene the block returns, and it leaves the two lists (members and
  order), every object's bounding corners and name, and every object outside
  \<open>all_objects\<close> as they were: only scales and locations of objects in \<open>all_objects\<close>
  are written.
\<close>

theorem normalize_frame:
  "\<exists>sc'. normalize sc = Inr sc' \<and>
     all_objects sc' = all_objects sc \<and> ecs_objects sc' = ecs_objects sc \<and>
     (\<forall>h. bound_box (objs sc' h) = bound_box (objs sc h) \<and>
          name (objs sc' h) = name (objs sc h)) \<and>
     (\<forall>h. h \<notin> set (all_objects sc) \<longrightarrow> objs sc' h = objs sc h)"
proof (cases "ecs_objects sc = []")
  case True
  then have "normalize sc = Inr sc" by (simp add: normalize_def)
  then show ?thesis by simp
next
  case False
  obtain s where s: "scaling_factor (ecs_extent sc) = Inr s"
    using scaling_factor_total by blast
  obtain c where c: "ecs_center (ecs_extent sc) s = Inr c"
    using ecs_center_total by blast
  have "normalize sc =
    Inr (sc\<lparr>objs := shift_all c (all_objects sc) (rescale_all s (all_objects sc) (objs sc))\<rparr>)"
    using False s c by (simp add: normalize_def)
  then show ?thesis
    by (simp add: shift_all_frame rescale_all_frame)
qed

text \<open>An object outside \<open>all_objects\<close>, and the frame at the scene of one box and one cell.\<close>

theorem normalize_frame_witness:
  "2 \<notin> set (all_objects matrix_cell_scene) \<and>
   (\<exists>sc'. normalize matrix_cell_scene = Inr sc' \<and>
      all_objects sc' = [0, 1] \<and> ecs_objects sc' = [0] \<and>
      bound_box (objs sc' 0) = box_corners 0 0 0 2 4 8 \<and>
      name (objs sc' 1) = ''Cell_a.ply'' \<and>
      objs sc' 2 = cell_object)"
proof -
  have n: "2 \<notin> set (all_objects matrix_cell_scene)"
    by (simp add: matrix_cell_scene_def)
  from normalize_frame [of matrix_cell_scene] obtain sc'
    where 1: "normalize matrix_cell_scene = Inr sc'"
      and 2: "all_objects sc' = all_objects matrix_cell_scene"
      and 3: "ecs_objects sc' = ecs_objects matrix_cell_scene"
      and 4: "\<forall>h. bound_box (objs sc' h) = bound_box (objs matrix_cell_scene h) \<and>
          name (objs sc' h) = name (objs matrix_cell_scene h)"
      and 5: "\<forall>h. h \<notin> set (all_objects matrix_cell_scene) \<longrightarrow>
          objs sc' h = objs matrix_cell_scene h"
    by blast
  from 5 n have "objs sc' 2 = objs matrix_cell_scene 2" by blast
  then have 6: "objs sc' 2 = cell_object" by (simp add: matrix_cell_scene_def)
  from 4 have "bound_box (objs sc' 0) = bound_box (objs matrix_cell_scene 0)"
    and "name (objs sc' 1) = name (objs matrix_cell_scene 1)" by simp_all
  then have 7: "bound_box (objs sc' 0) = box_corners 0 0 0 2 4 8"
    and 8: "name (objs sc' 1) = ''Cell_a.ply''"
    by (simp_all add: matrix_cell_scene_def box_object_def cell_object_def)
  from 2 3 have 9: "all_objects sc' = [0, 1]" and 10: "ecs_objects sc' = [0]"
    by (simp_all add: matrix_cell_scene_def)
  from n 1 6 7 8 9 10 show ?thesis by blast
qed

text \<open>
  C4. Let the scene be well formed and the least dimension of the bounding box of the
  ECS objects be at most 0. Then the scaling factor is exactly 1.0 (the guarded division
  is not evaluated), the block returns without a ZeroDivisionError, and afterwards the
  scale and the location of every object of \<open>all_objects\<close> are finite: neither NaN nor
  an infinity is written.
\<close>

theorem degenerate_extent_scale_one:
  assumes "wf_scene sc" and "fle (min_dimension (ecs_extent sc)) (Fin 0)"
  shows "scaling_factor (ecs_extent sc) = Inr (Fin 1) \<and>
     (\<exists>sc'. normalize sc = Inr sc' \<and>
        (\<forall>h \<in> set (all_objects sc').
           fin_vec (scale (objs sc' h)) \<and> fin_vec (location (objs sc' h))))"
proof
  show "scaling_factor (ecs_extent sc) = Inr (Fin 1)"
    using fle_not_fgt [OF assms(2)] by (simp add: scaling_factor_def)
  have fin: "\<forall>h \<in> set (all_objects sc'). fin_vec (scale (objs sc' h)) \<and> fin_vec (location (objs sc' h))"
    if "wf_scene sc'" for sc'
    using that by (simp add: wf_scene_def wf_object_def)
  show "\<exists>sc'. normalize sc = Inr sc' \<and>
        (\<forall>h \<in> set (all_objects sc').
           fin_vec (scale (objs sc' h)) \<and> fin_vec (location (objs sc' h)))"
  proof (cases "ecs_objects sc = []")
    case True
    then have "normalize sc = Inr sc" by (simp add: normalize_def)
    with fin [OF assms(1)] show ?thesis by blast
  next
    case False
    from normalize_fin [OF assms(1) False] fin [OF after_wf [OF assms(1)]]
    show ?thesis by blast
  qed
qed

text \<open>
  The hypotheses of C4 hold in the scene whose ECS object has all eight corners at one
  point: the least dimension is 0.
\<close>

theorem degenerate_extent_scale_one_witness:
  "wf_scene degenerate_scene \<and>
   min_dimension (ecs_extent degenerate_scene) = Fin 0 \<and>
   fle (min_dimension (ecs_extent degenerate_scene)) (Fin 0) \<and>
   scaling_factor (ecs_extent degenerate_scene) = Inr (Fin 1) \<and>
   (\<exists>sc'. normalize degenerate_scene = Inr sc' \<and> all_objects sc' = [0, 1] \<and>
      fin_vec (scale (objs sc' 0)) \<and> fin_vec (location (objs sc' 0)) \<and>
      fin_vec (scale (objs sc' 1)) \<and> fin_vec (location (objs sc' 1)))"
proof -
  have w: "wf_scene degenerate_scene" by (rule wf_scenes)
  have m: "min_dimension (ecs_extent degenerate_scene) = Fin 0"
    by (simp add: degenerate_extent min_dimension_def ecs_size_x_def ecs_size_y_def
        ecs_size_z_def)
  then have f: "fle (min_dimension (ecs_extent degenerate_scene)) (Fin 0)" by simp
  from degenerate_extent_scale_one [OF w f] obtain sc'
    where s: "scaling_factor (ecs_extent degenerate_scene) = Inr (Fin 1)"
      and n: "normalize degenerate_scene = Inr sc'"
      and a: "\<forall>h \<in> set (all_objects sc').
           fin_vec (scale (objs sc' h)) \<and> fin_vec (location (objs sc' h))"
    by blast
  from normalize_total_frame [OF n]
  have l: "all_objects sc' = [0, 1]"
    by (simp add: degenerate_scene_def)
  with a have "fin_vec (scale (objs sc' 0)) \<and> fin_vec (location (objs sc' 0)) \<and>
      fin_vec (scale (objs sc' 1)) \<and> fin_vec (location (objs sc' 1))"
    by simp
  with w m f s n l show ?thesis by blast
qed








text \<open>
  C10. The centring loop (lines 181-184) on any store, for a list without repetition
  and a finite offset \<open>c\<close>: each of two listed objects with finite locations has its
  location reduced by \<open>c\<close>, and the difference of the two locations is the same after
  the loop as before it.
\<close>

theorem centering_preserves_differences:
  assumes "distinct hs" and "fin_vec c" and "h1 \<in> set hs" and "h2 \<in> set hs"
    and "fin_vec (location (st h1))" and "fin_vec (location (st h2))"
  shows "location (shift_all c hs st h1) = vec_sub (location (st h1)) c \<and>
         location (shift_all c hs st h2) = vec_sub (location (st h2)) c \<and>
         vec_sub (location (shift_all c hs st h1)) (location (shift_all c hs st h2)) =
           vec_sub (location (st h1)) (location (st h2))"
  using assms by (simp add: shift_all_apply vec_sub_cancel)

text \<open>
  The hypotheses of C10 hold for the two cubes at locations (0, 0, 0) and (2, 2, 2) and
  the offset (1/2, 1/2, 1/2): the difference stays (-2, -2, -2).
\<close>

theorem centering_preserves_differences_witness:
  "distinct [0, 1 :: nat] \<and> fin_vec (Vector (1 / 2) (1 / 2) (1 / 2)) \<and>
   location (objs two_cubes_scene 0) = Vector 0 0 0 \<and>
   location (objs two_cubes_scene 1) = Vector 2 2 2 \<and>
   location (shift_all (Vector (1 / 2) (1 / 2) (1 / 2)) [0, 1] (objs two_cubes_scene) 0) =
     Vector (- 1 / 2) (- 1 / 2) (- 1 / 2) \<and>
   location (shift_all (Vector (1 / 2) (1 / 2) (1 / 2)) [0, 1] (objs two_cubes_scene) 1) =
     Vector (3 / 2) (3 / 2) (3 / 2) \<and>
   vec_sub (location (shift_all (Vector (1 / 2) (1 / 2) (1 / 2)) [0, 1] (objs two_cubes_scene) 0))
       (location (shift_all (Vector (1 / 2) (1 / 2) (1 / 2)) [0, 1] (objs two_cubes_scene) 1)) =
     Vector (- 2) (- 2) (- 2)"
proof -
  have d: "distinct [0, 1 :: nat]" by simp
  have c: "fin_vec (Vector (1 / 2) (1 / 2) (1 / 2))" by simp
  have m: "(0 :: nat) \<in> set [0, 1]" "(1 :: nat) \<in> set [0, 1]" by simp_all
  have l0: "location (objs two_cubes_scene 0) = Vector 0 0 0"
    and l1: "location (objs two_cubes_scene 1) = Vector 2 2 2"
    by (simp_all add: two_cubes_scene_def cube_object_def)
  have f0: "fin_vec (location (objs two_cubes_scene 0))"
    unfolding l0 by simp
  have f1: "fin_vec (location (objs two_cubes_scene 1))"
    unfolding l1 by simp
  from centering_preserves_differences [OF d c m f0 f1] d c l0 l1
  show ?thesis by (simp add: vec_sub_def Vector_def)
qed

end
